theory Spec2Isabelle
  imports Main "HOL-Library.Word"
begin

unbundle bit_operations_syntax

section \<open>Types (std_types.h, stack_alloc_types.h, stack_alloc_cfg.h)\<close>

type_synonym uint8 = "8 word"
type_synonym uint32 = "32 word"

text \<open>
  Every pointer the allocator computes with is cast to \<open>uint32\<close> and back
  (\<open>(uint8*)AlignUp((uint32)sa->current, ...)\<close>), so an address is a 32-bit word;
  pointer comparison is the unsigned order and pointer arithmetic wraps, which is what
  the overflow test \<open>new_top < aligned_ptr\<close> of the source relies on.
\<close>

type_synonym addr = uint32

text \<open>The byte memory the buffer lives in.\<close>

type_synonym memory = "addr \<Rightarrow> uint8"

text \<open>
  Modelled from the spec: \<open>NULL_PTR\<close> is declared in std_types.h, which is not among
  the sources. The spec calls it the absent handle; as an address it is 0, which is what
  the alignment test of \<open>StackAlloc_FreeToMarker\<close> compares a marker with.
\<close>

definition NULL_PTR :: addr where
  "NULL_PTR = 0"

type_synonym TStack_alloc_error = uint8

definition STACK_ALLOC_OK :: TStack_alloc_error where
  "STACK_ALLOC_OK = 0x00"

definition STACK_ALLOC_ERROR_INVALID_PARAM :: TStack_alloc_error where
  "STACK_ALLOC_ERROR_INVALID_PARAM = 0x01"

definition STACK_ALLOC_ERROR_OUT_OF_MEMORY :: TStack_alloc_error where
  "STACK_ALLOC_ERROR_OUT_OF_MEMORY = 0x02"

definition STACK_ALLOC_ERROR_CORRUPTED_STATE :: TStack_alloc_error where
  "STACK_ALLOC_ERROR_CORRUPTED_STATE = 0x03"

definition STACK_ALLOC_ERROR_INVALID_MARKER :: TStack_alloc_error where
  "STACK_ALLOC_ERROR_INVALID_MARKER = 0x04"

definition STACK_ALLOC_ERROR_NOT_LIFO :: TStack_alloc_error where
  "STACK_ALLOC_ERROR_NOT_LIFO = 0x05"

record TStack_alloc =
  buffer_start :: addr
  buffer_end :: addr
  current :: addr
  capacity :: uint32

definition STACK_ALLOC_ALIGNMENT :: uint32 where
  "STACK_ALLOC_ALIGNMENT = 8"

text \<open>\<open>#define SIZE_MAX ((uint32)-1)\<close>\<close>

definition SIZE_MAX :: uint32 where
  "SIZE_MAX = - 1"

section \<open>The allocator (stack_alloc.c)\<close>

text \<open>
  An instance handle \<open>TStack_alloc* sa\<close> is \<open>None\<close> when the pointer is
  \<open>NULL_PTR\<close> and \<open>Some s\<close> when it points to a structure with the fields \<open>s\<close>.
  A function that writes through \<open>sa\<close> returns the handle with the new fields.
\<close>

text \<open>
  \<open>address % alignment\<close> is the unsigned remainder; the source only ever passes the
  alignment 8, so the division by zero of C never arises.
\<close>

definition AlignUp :: "uint32 \<Rightarrow> uint32 \<Rightarrow> uint32" where
  "AlignUp address alignment =
     (let remainder = address mod alignment in
      if remainder = 0 then address
      else address + (alignment - remainder))"

definition GetAlignedStart :: "TStack_alloc \<Rightarrow> addr" where
  "GetAlignedStart sa = AlignUp (buffer_start sa) STACK_ALLOC_ALIGNMENT"

text \<open>
  \<open>StackAlloc_Init\<close> takes the memory along and returns it: the source stores into the
  four fields of \<open>*sa\<close> and nowhere else.
\<close>

definition StackAlloc_Init ::
  "memory \<Rightarrow> TStack_alloc option \<Rightarrow> addr \<Rightarrow> uint32
     \<Rightarrow> TStack_alloc_error \<times> TStack_alloc option \<times> memory" where
  "StackAlloc_Init mem sa buffer buffer_size =
     (case sa of
        None \<Rightarrow> (STACK_ALLOC_ERROR_INVALID_PARAM, sa, mem)
      | Some s \<Rightarrow>
          if buffer = NULL_PTR \<or> buffer_size < STACK_ALLOC_ALIGNMENT
          then (STACK_ALLOC_ERROR_INVALID_PARAM, sa, mem)
          else
            let s1 = s\<lparr>buffer_start := buffer\<rparr>;
                s2 = s1\<lparr>buffer_end := buffer_start s1 + buffer_size\<rparr>;
                s3 = s2\<lparr>capacity := buffer_size\<rparr>;
                s4 = s3\<lparr>current := GetAlignedStart s3\<rparr>
            in if current s4 \<ge> buffer_end s4
               then (STACK_ALLOC_ERROR_OUT_OF_MEMORY, Some s4, mem)
               else (STACK_ALLOC_OK, Some s4, mem))"

definition StackAlloc_Alloc ::
  "TStack_alloc option \<Rightarrow> uint32 \<Rightarrow> addr \<times> TStack_alloc option" where
  "StackAlloc_Alloc sa sz =
     (case sa of
        None \<Rightarrow> (NULL_PTR, sa)
      | Some s \<Rightarrow>
          if sz = 0 then (NULL_PTR, sa)
          else
            let aligned_ptr = AlignUp (current s) STACK_ALLOC_ALIGNMENT;
                new_top = aligned_ptr + sz
            in if new_top < aligned_ptr \<or> new_top > buffer_end s
               then (NULL_PTR, sa)
               else (aligned_ptr, Some (s\<lparr>current := new_top\<rparr>)))"

text \<open>
  Modelled from the spec: \<open>mem_set\<close> is declared in helper_routines.h, which is not
  among the sources. The spec describes the primitive: given an address and a byte count,
  it sets every byte in that range (here to the value passed) and no other byte.
\<close>

definition mem_set :: "memory \<Rightarrow> addr \<Rightarrow> uint8 \<Rightarrow> uint32 \<Rightarrow> memory" where
  "mem_set mem ptr val n = (\<lambda>a. if a - ptr < n then val else mem a)"

definition StackAlloc_Calloc ::
  "memory \<Rightarrow> TStack_alloc option \<Rightarrow> uint32 \<Rightarrow> uint32
     \<Rightarrow> addr \<times> TStack_alloc option \<times> memory" where
  "StackAlloc_Calloc mem sa num sz =
     (if num = 0 \<or> sz = 0 then (NULL_PTR, sa, mem)
      else if num > SIZE_MAX div sz then (NULL_PTR, sa, mem)
      else
        let total = num * sz;
            (ptr, sa') = StackAlloc_Alloc sa total
        in if ptr \<noteq> NULL_PTR then (ptr, sa', mem_set mem ptr 0 total)
           else (ptr, sa', mem))"

text \<open>
  Modelled from the spec: \<open>StackAlloc_GetMarker\<close> is declared in stack_alloc.h and has
  no definition among the sources. The spec: it returns the current cursor value as an
  opaque marker, or "none" if the instance handle is absent. The handle is returned
  beside the marker so that what the call leaves of the instance can be stated.
\<close>

definition StackAlloc_GetMarker :: "TStack_alloc option \<Rightarrow> addr \<times> TStack_alloc option" where
  "StackAlloc_GetMarker sa =
     (case sa of None \<Rightarrow> (NULL_PTR, sa) | Some s \<Rightarrow> (current s, sa))"

definition StackAlloc_FreeToMarker ::
  "TStack_alloc option \<Rightarrow> addr \<Rightarrow> TStack_alloc_error \<times> TStack_alloc option" where
  "StackAlloc_FreeToMarker sa marker =
     (case sa of
        None \<Rightarrow> (STACK_ALLOC_ERROR_INVALID_PARAM, sa)
      | Some s \<Rightarrow>
          if marker = NULL_PTR then (STACK_ALLOC_ERROR_INVALID_PARAM, sa)
          else if marker < buffer_start s \<or> marker \<ge> current s
          then (STACK_ALLOC_ERROR_INVALID_MARKER, sa)
          else if marker \<noteq> NULL_PTR \<and> marker AND (STACK_ALLOC_ALIGNMENT - 1) \<noteq> 0
          then (STACK_ALLOC_ERROR_INVALID_MARKER, sa)
          else (STACK_ALLOC_OK, Some (s\<lparr>current := marker\<rparr>)))"

definition StackAlloc_Reset :: "TStack_alloc option \<Rightarrow> TStack_alloc option" where
  "StackAlloc_Reset sa =
     (case sa of
        None \<Rightarrow> sa
      | Some s \<Rightarrow> Some (s\<lparr>current := GetAlignedStart s\<rparr>))"

definition StackAlloc_GetCapacity :: "TStack_alloc option \<Rightarrow> uint32" where
  "StackAlloc_GetCapacity sa = (case sa of None \<Rightarrow> 0 | Some s \<Rightarrow> capacity s)"

definition StackAlloc_GetUsed :: "TStack_alloc option \<Rightarrow> uint32" where
  "StackAlloc_GetUsed sa =
     (case sa of
        None \<Rightarrow> 0
      | Some s \<Rightarrow> let aligned_start = GetAlignedStart s in current s - aligned_start)"

definition StackAlloc_GetAvailable :: "TStack_alloc option \<Rightarrow> uint32" where
  "StackAlloc_GetAvailable sa =
     (case sa of None \<Rightarrow> 0 | Some s \<Rightarrow> buffer_end s - current s)"

definition StackAlloc_Validate :: "TStack_alloc option \<Rightarrow> TStack_alloc_error" where
  "StackAlloc_Validate sa =
     (case sa of
        None \<Rightarrow> STACK_ALLOC_ERROR_CORRUPTED_STATE
      | Some s \<Rightarrow>
          if buffer_start s = NULL_PTR \<or> buffer_end s = NULL_PTR
          then STACK_ALLOC_ERROR_CORRUPTED_STATE
          else if buffer_start s > buffer_end s then STACK_ALLOC_ERROR_CORRUPTED_STATE
          else
            let aligned_start = GetAlignedStart s
            in if current s < aligned_start \<or> current s > buffer_end s
               then STACK_ALLOC_ERROR_CORRUPTED_STATE
               else STACK_ALLOC_OK)"

section \<open>The invariant of the data model and the fixtures of the examples\<close>

text \<open>\<open>bufferStart <= alignedStart <= current <= bufferEnd\<close>, in the unsigned order of addresses.\<close>

definition sa_invariant :: "TStack_alloc \<Rightarrow> bool" where
  "sa_invariant s \<longleftrightarrow>
     buffer_start s \<le> GetAlignedStart s \<and> GetAlignedStart s \<le> current s
     \<and> current s \<le> buffer_end s"

text \<open>An instance nobody has initialised yet, and a memory whose bytes are all \<open>0xFF\<close>.\<close>

definition sa_blank :: TStack_alloc where
  "sa_blank = \<lparr>buffer_start = 0, buffer_end = 0, current = 0, capacity = 0\<rparr>"

definition mem_ff :: memory where
  "mem_ff = (\<lambda>a. 0xFF)"

text \<open>
  The instance after \<open>StackAlloc_Init\<close> on a 1024-byte buffer at \<open>0x1000\<close> (the size
  of the test suite's buffer), and the one after \<open>StackAlloc_Init\<close> on the 15 bytes
  \<open>0xFFFFFFF0 .. 0xFFFFFFFE\<close>, which end one byte below the top of the address space.
\<close>

definition sa_test :: TStack_alloc where
  "sa_test = \<lparr>buffer_start = 0x1000, buffer_end = 0x1400, current = 0x1000, capacity = 1024\<rparr>"

definition sa_top :: TStack_alloc where
  "sa_top = \<lparr>buffer_start = 0xFFFFFFF0, buffer_end = 0xFFFFFFFF, current = 0xFFFFFFF0,
             capacity = 15\<rparr>"

section \<open>Arithmetic of addresses\<close>

lemma and7: "(m::uint32) AND 7 = m mod 8"
  using take_bit_eq_mask[of 3 m] take_bit_eq_mod[of 3 m] by (simp add: mask_eq_exp_minus_1)

lemma unat_mod8: "unat ((a::uint32) mod 8) = unat a mod 8"
  by (simp add: unat_mod)

lemma mod8_iff: "((a::uint32) mod 8 = 0) = (unat a mod 8 = 0)"
  using unat_mod8[of a] unat_eq_zero[of "a mod 8"] by simp

lemma AlignUp_unat:
  "unat (AlignUp a 8) = (if unat a mod 8 = 0 then unat a else (unat a + (8 - unat a mod 8)) mod 2^32)"
proof (cases "a mod 8 = 0")
  case True
  then have "unat a mod 8 = 0" by (simp add: mod8_iff)
  with True show ?thesis by (simp add: AlignUp_def)
next
  case False
  then have nz: "unat a mod 8 \<noteq> 0" by (simp add: mod8_iff)
  have le: "a mod 8 \<le> 8" by (simp add: word_le_nat_alt unat_mod8)
  have "unat (8 - a mod 8) = 8 - unat a mod 8"
    using unat_sub[OF le] by (simp add: unat_mod8)
  then have "unat (a + (8 - a mod 8)) = (unat a + (8 - unat a mod 8)) mod 2^32"
    by (simp add: unat_word_ariths)
  with False nz show ?thesis by (simp add: AlignUp_def)
qed

lemma unat_lt32: "unat (a::uint32) < 4294967296"
  using unsigned_less[of a, where ?'a=nat] by simp

lemma AlignUp_cases:
  "(unat a \<le> unat (AlignUp a 8) \<and> unat (AlignUp a 8) < unat a + 8 \<and> unat (AlignUp a 8) mod 8 = 0)
   \<or> (AlignUp a 8 = 0 \<and> 4294967288 < unat a)"
proof -
  define n where "n = unat a"
  have b: "n < 4294967296" unfolding n_def by (rule unat_lt32)
  have u: "unat (AlignUp a 8) = (if n mod 8 = 0 then n else (n + (8 - n mod 8)) mod 4294967296)"
    unfolding n_def by (simp add: AlignUp_unat)
  show ?thesis
  proof (cases "n mod 8 = 0")
    case True
    with u show ?thesis by (simp add: n_def)
  next
    case False
    show ?thesis
    proof (cases "n + (8 - n mod 8) < 4294967296")
      case True
      with False u have e: "unat (AlignUp a 8) = n + (8 - n mod 8)" by simp
      have "(n + (8 - n mod 8)) mod 8 = 0" by presburger
      moreover have "n \<le> n + (8 - n mod 8)" by simp
      moreover have "n + (8 - n mod 8) < n + 8" using False by simp
      ultimately show ?thesis unfolding e n_def[symmetric] by simp
    next
      case F2: False
      have "n + (8 - n mod 8) = 4294967296" using F2 b False by presburger
      with False u have "unat (AlignUp a 8) = 0" by simp
      then have "AlignUp a 8 = 0" by (simp add: unat_eq_zero)
      moreover have "4294967288 < n" using F2 False by arith
      ultimately show ?thesis by (simp add: n_def)
    qed
  qed
qed

lemma AlignUp_aligned: "AlignUp a 8 mod 8 = 0"
  using AlignUp_cases[of a] by (auto simp: mod8_iff)

lemma AlignUp_least:
  assumes "b \<le> m" and "m mod 8 = 0"
  shows "AlignUp b 8 \<le> m"
proof -
  have m8: "unat m mod 8 = 0" using assms(2) by (simp add: mod8_iff)
  have bm: "unat b \<le> unat m" using assms(1) by (simp add: word_le_nat_alt)
  from AlignUp_cases[of b] show ?thesis
  proof
    assume h: "unat b \<le> unat (AlignUp b 8) \<and> unat (AlignUp b 8) < unat b + 8 \<and> unat (AlignUp b 8) mod 8 = 0"
    then have "unat (AlignUp b 8) \<le> unat m" using m8 bm by presburger
    then show ?thesis by (simp add: word_le_nat_alt)
  next
    assume "AlignUp b 8 = 0 \<and> 4294967288 < unat b"
    then show ?thesis by simp
  qed
qed

lemma wrap_iff: "((a::uint32) + sz < a) = (4294967296 \<le> unat a + unat sz)"
  using no_plus_overflow_unat_size[of a sz] by (simp add: word_size not_le[symmetric])

lemma unat_SIZE_MAX: "unat SIZE_MAX = 4294967295"
  by (simp add: SIZE_MAX_def unsigned_minus_1_eq_mask mask_eq_exp_minus_1)

lemma calloc_guard:
  assumes "sz \<noteq> 0"
  shows "(num > SIZE_MAX div sz) = (4294967296 \<le> unat num * unat sz)"
proof -
  have pos: "0 < unat sz" using assms by (simp add: unat_gt_0)
  have "(num \<le> SIZE_MAX div sz) = (unat num \<le> 4294967295 div unat sz)"
    by (simp add: word_le_nat_alt unat_div unat_SIZE_MAX)
  also have "\<dots> = (unat num * unat sz \<le> 4294967295)"
    using pos by (simp add: less_eq_div_iff_mult_less_eq)
  finally have e: "(num \<le> SIZE_MAX div sz) = (unat num * unat sz \<le> 4294967295)" .
  have "(SIZE_MAX div sz < num) = (\<not> num \<le> SIZE_MAX div sz)" by (simp add: not_le)
  also have "\<dots> = (\<not> unat num * unat sz \<le> 4294967295)" by (simp only: e)
  also have "\<dots> = (4294967296 \<le> unat num * unat sz)" by linarith
  finally show ?thesis .
qed

lemma calloc_total:
  assumes "sz \<noteq> 0" and "\<not> num > SIZE_MAX div sz"
  shows "unat (num * sz) = unat num * unat sz"
proof -
  have "unat num * unat sz < 4294967296" using calloc_guard[OF assms(1), of num] assms(2) by simp
  then show ?thesis by (simp add: unat_word_ariths)
qed



lemma error_codes_distinct:
  "STACK_ALLOC_OK \<noteq> STACK_ALLOC_ERROR_INVALID_PARAM"
  "STACK_ALLOC_OK \<noteq> STACK_ALLOC_ERROR_OUT_OF_MEMORY"
  "STACK_ALLOC_OK \<noteq> STACK_ALLOC_ERROR_INVALID_MARKER"
  "STACK_ALLOC_ERROR_INVALID_PARAM \<noteq> STACK_ALLOC_ERROR_OUT_OF_MEMORY"
  "STACK_ALLOC_ERROR_INVALID_PARAM \<noteq> STACK_ALLOC_ERROR_INVALID_MARKER"
  "STACK_ALLOC_ERROR_OUT_OF_MEMORY \<noteq> STACK_ALLOC_ERROR_INVALID_MARKER"
  by (simp_all add: STACK_ALLOC_OK_def STACK_ALLOC_ERROR_INVALID_PARAM_def
      STACK_ALLOC_ERROR_OUT_OF_MEMORY_def STACK_ALLOC_ERROR_INVALID_MARKER_def)

lemma marker_mask: "(marker AND (STACK_ALLOC_ALIGNMENT - 1) \<noteq> 0) = (marker mod STACK_ALLOC_ALIGNMENT \<noteq> 0)"
  by (simp add: STACK_ALLOC_ALIGNMENT_def and7)

lemma FreeToMarker_None:
  "StackAlloc_FreeToMarker None marker = (STACK_ALLOC_ERROR_INVALID_PARAM, None)"
  by (simp add: StackAlloc_FreeToMarker_def)

lemma FreeToMarker_Some:
  "StackAlloc_FreeToMarker (Some s) marker =
     (if marker = NULL_PTR then (STACK_ALLOC_ERROR_INVALID_PARAM, Some s)
      else if marker < buffer_start s \<or> current s \<le> marker \<or> marker mod STACK_ALLOC_ALIGNMENT \<noteq> 0
      then (STACK_ALLOC_ERROR_INVALID_MARKER, Some s)
      else (STACK_ALLOC_OK, Some (s\<lparr>current := marker\<rparr>)))"
  by (simp add: StackAlloc_FreeToMarker_def marker_mask)

section \<open>Allocate\<close>

text \<open>
  C1. \<open>StackAlloc_Alloc\<close> returns \<open>NULL_PTR\<close> and leaves the instance as it was when the
  handle is absent, when the size is 0, when \<open>alignUp(current) + size\<close> wraps below the
  aligned pointer (the sum of the two reaches \<open>2^32\<close>), or when it exceeds
  \<open>buffer_end\<close>; otherwise it moves \<open>current\<close> to \<open>alignUp(current) + size\<close> and returns
  \<open>alignUp(current)\<close>.
\<close>

theorem StackAlloc_Alloc_spec:
  "StackAlloc_Alloc None sz = (NULL_PTR, None)
   \<and> StackAlloc_Alloc (Some s) sz =
       (if sz = 0
          \<or> AlignUp (current s) STACK_ALLOC_ALIGNMENT + sz < AlignUp (current s) STACK_ALLOC_ALIGNMENT
          \<or> AlignUp (current s) STACK_ALLOC_ALIGNMENT + sz > buffer_end s
        then (NULL_PTR, Some s)
        else (AlignUp (current s) STACK_ALLOC_ALIGNMENT,
              Some (s\<lparr>current := AlignUp (current s) STACK_ALLOC_ALIGNMENT + sz\<rparr>)))
   \<and> (AlignUp (current s) STACK_ALLOC_ALIGNMENT + sz < AlignUp (current s) STACK_ALLOC_ALIGNMENT)
       = (2 ^ 32 \<le> unat (AlignUp (current s) STACK_ALLOC_ALIGNMENT) + unat sz)"
  by (simp add: StackAlloc_Alloc_def Let_def wrap_iff)

section \<open>FreeToMarker\<close>

text \<open>
  C2. \<open>StackAlloc_FreeToMarker\<close> returns \<open>INVALID_PARAM\<close> exactly when the instance or the
  marker is absent; with both present it returns \<open>INVALID_MARKER\<close> exactly when the marker
  is below \<open>buffer_start\<close>, at or above \<open>current\<close>, or not a multiple of the alignment;
  it succeeds exactly in the remaining case, and then \<open>current\<close> is the marker. On every
  other outcome the instance is returned as it was.
\<close>

theorem StackAlloc_FreeToMarker_spec:
  "(fst (StackAlloc_FreeToMarker sa marker) = STACK_ALLOC_ERROR_INVALID_PARAM)
      = (sa = None \<or> marker = NULL_PTR)
   \<and> (fst (StackAlloc_FreeToMarker (Some s) marker) = STACK_ALLOC_ERROR_INVALID_MARKER)
      = (marker \<noteq> NULL_PTR \<and>
         (marker < buffer_start s \<or> current s \<le> marker \<or> marker mod STACK_ALLOC_ALIGNMENT \<noteq> 0))
   \<and> (fst (StackAlloc_FreeToMarker (Some s) marker) = STACK_ALLOC_OK)
      = (marker \<noteq> NULL_PTR \<and> buffer_start s \<le> marker \<and> marker < current s
         \<and> marker mod STACK_ALLOC_ALIGNMENT = 0)
   \<and> snd (StackAlloc_FreeToMarker sa marker)
      = (if fst (StackAlloc_FreeToMarker sa marker) = STACK_ALLOC_OK
         then map_option (\<lambda>s. s\<lparr>current := marker\<rparr>) sa else sa)"
proof (cases sa)
  case None
  then show ?thesis
    using error_codes_distinct by (auto simp: FreeToMarker_Some FreeToMarker_None)
next
  case (Some t)
  then show ?thesis
    using error_codes_distinct by (auto simp: FreeToMarker_Some)
qed

section \<open>Initialize\<close>

lemma Init_None:
  "StackAlloc_Init mem None buffer n = (STACK_ALLOC_ERROR_INVALID_PARAM, None, mem)"
  by (simp add: StackAlloc_Init_def)

lemma Init_Some:
  "StackAlloc_Init mem (Some s) buffer n =
     (if buffer = NULL_PTR \<or> n < STACK_ALLOC_ALIGNMENT
      then (STACK_ALLOC_ERROR_INVALID_PARAM, Some s, mem)
      else if buffer + n \<le> AlignUp buffer STACK_ALLOC_ALIGNMENT
      then (STACK_ALLOC_ERROR_OUT_OF_MEMORY,
            Some \<lparr>buffer_start = buffer, buffer_end = buffer + n,
                  current = AlignUp buffer STACK_ALLOC_ALIGNMENT, capacity = n\<rparr>, mem)
      else (STACK_ALLOC_OK,
            Some \<lparr>buffer_start = buffer, buffer_end = buffer + n,
                  current = AlignUp buffer STACK_ALLOC_ALIGNMENT, capacity = n\<rparr>, mem))"
  by (cases s) (simp add: StackAlloc_Init_def Let_def GetAlignedStart_def)

lemma Init_test_buffer:
  "StackAlloc_Init mem (Some s) 0x1000 1024 = (STACK_ALLOC_OK, Some sa_test, mem)"
  by (simp add: Init_Some AlignUp_def STACK_ALLOC_ALIGNMENT_def NULL_PTR_def sa_test_def)

lemma FreeToMarker_OK:
  assumes "StackAlloc_FreeToMarker (Some s) marker = (STACK_ALLOC_OK, Some s')"
  shows "s' = s\<lparr>current := marker\<rparr>" and "buffer_start s \<le> marker" and "marker < current s"
    and "marker mod 8 = 0" and "GetAlignedStart s \<le> marker"
proof -
  from assms error_codes_distinct
  have a: "s' = s\<lparr>current := marker\<rparr> \<and> buffer_start s \<le> marker \<and> marker < current s
      \<and> marker mod STACK_ALLOC_ALIGNMENT = 0"
    by (auto simp: FreeToMarker_Some not_less not_le split: if_splits)
  then show "s' = s\<lparr>current := marker\<rparr>" and "buffer_start s \<le> marker"
    and "marker < current s" by simp_all
  from a show m: "marker mod 8 = 0" by (simp add: STACK_ALLOC_ALIGNMENT_def)
  from a m show "GetAlignedStart s \<le> marker"
    by (simp add: GetAlignedStart_def STACK_ALLOC_ALIGNMENT_def AlignUp_least)
qed

text \<open>
  C3. \<open>StackAlloc_Init\<close> returns \<open>INVALID_PARAM\<close> exactly when the instance handle is
  absent, the buffer address is \<open>NULL_PTR\<close> or the size is below the alignment; with valid
  parameters it returns \<open>OUT_OF_MEMORY\<close> exactly when the aligned start is not below
  \<open>buffer + size\<close>, and \<open>OK\<close> otherwise. On success the instance holds
  \<open>buffer_start = buffer\<close>, \<open>buffer_end = buffer + size\<close>, \<open>capacity = size\<close> and
  \<open>current\<close> = the aligned start. The memory is returned as it was in every case.
\<close>

theorem StackAlloc_Init_spec:
  "(fst (StackAlloc_Init mem sa buffer n) = STACK_ALLOC_ERROR_INVALID_PARAM)
      = (sa = None \<or> buffer = NULL_PTR \<or> n < STACK_ALLOC_ALIGNMENT)
   \<and> (fst (StackAlloc_Init mem sa buffer n) = STACK_ALLOC_ERROR_OUT_OF_MEMORY)
      = (sa \<noteq> None \<and> buffer \<noteq> NULL_PTR \<and> STACK_ALLOC_ALIGNMENT \<le> n
         \<and> buffer + n \<le> AlignUp buffer STACK_ALLOC_ALIGNMENT)
   \<and> (fst (StackAlloc_Init mem sa buffer n) = STACK_ALLOC_OK)
      = (sa \<noteq> None \<and> buffer \<noteq> NULL_PTR \<and> STACK_ALLOC_ALIGNMENT \<le> n
         \<and> AlignUp buffer STACK_ALLOC_ALIGNMENT < buffer + n)
   \<and> (fst (StackAlloc_Init mem sa buffer n) = STACK_ALLOC_OK \<longrightarrow>
        fst (snd (StackAlloc_Init mem sa buffer n))
          = Some \<lparr>buffer_start = buffer, buffer_end = buffer + n,
                   current = AlignUp buffer STACK_ALLOC_ALIGNMENT, capacity = n\<rparr>
        \<and> GetAlignedStart (the (fst (snd (StackAlloc_Init mem sa buffer n))))
          = AlignUp buffer STACK_ALLOC_ALIGNMENT)
   \<and> snd (snd (StackAlloc_Init mem sa buffer n)) = mem"
  using error_codes_distinct
  by (cases sa) (auto simp: Init_None Init_Some GetAlignedStart_def not_less not_le)

text \<open>The test suite's initialisation: a 1024-byte buffer at an aligned address.\<close>

theorem StackAlloc_Init_spec_witness:
  "fst (StackAlloc_Init mem_ff (Some sa_blank) 0x1000 1024) = STACK_ALLOC_OK
   \<and> fst (snd (StackAlloc_Init mem_ff (Some sa_blank) 0x1000 1024))
       = Some \<lparr>buffer_start = 0x1000, buffer_end = 0x1400, current = 0x1000, capacity = 1024\<rparr>
   \<and> GetAlignedStart (the (fst (snd (StackAlloc_Init mem_ff (Some sa_blank) 0x1000 1024))))
       = 0x1000
   \<and> snd (snd (StackAlloc_Init mem_ff (Some sa_blank) 0x1000 1024)) = mem_ff"
proof -
  have ok: "fst (StackAlloc_Init mem_ff (Some sa_blank) 0x1000 1024) = STACK_ALLOC_OK"
    by (simp add: Init_test_buffer)
  have al: "AlignUp 0x1000 STACK_ALLOC_ALIGNMENT = 0x1000"
    by (simp add: AlignUp_def STACK_ALLOC_ALIGNMENT_def)
  have gs: "GetAlignedStart \<lparr>buffer_start = 0x1000, buffer_end = 0x1400, current = 0x1000,
      capacity = 1024\<rparr> = 0x1000"
    by (simp add: GetAlignedStart_def al)
  show ?thesis
    using StackAlloc_Init_spec [of mem_ff "Some sa_blank" "0x1000" 1024] ok al gs
    by simp
qed

text \<open>
  C9. When \<open>StackAlloc_Init\<close> returns \<open>OUT_OF_MEMORY\<close> the instance already carries the new
  \<open>buffer_start\<close>, \<open>buffer_end\<close> and \<open>capacity\<close>, and \<open>current\<close> is the aligned start,
  at or past \<open>buffer_end\<close>; when it returns \<open>INVALID_PARAM\<close> the instance is as it was.
\<close>

theorem StackAlloc_Init_failure_state:
  "(fst (StackAlloc_Init mem sa buffer n) = STACK_ALLOC_ERROR_OUT_OF_MEMORY \<longrightarrow>
      fst (snd (StackAlloc_Init mem sa buffer n))
        = Some \<lparr>buffer_start = buffer, buffer_end = buffer + n,
                 current = AlignUp buffer STACK_ALLOC_ALIGNMENT, capacity = n\<rparr>
      \<and> GetAlignedStart (the (fst (snd (StackAlloc_Init mem sa buffer n))))
          = AlignUp buffer STACK_ALLOC_ALIGNMENT
      \<and> buffer + n \<le> AlignUp buffer STACK_ALLOC_ALIGNMENT)
   \<and> (fst (StackAlloc_Init mem sa buffer n) = STACK_ALLOC_ERROR_INVALID_PARAM \<longrightarrow>
      fst (snd (StackAlloc_Init mem sa buffer n)) = sa)"
  using error_codes_distinct
  by (cases sa) (simp_all add: Init_None Init_Some GetAlignedStart_def)

text \<open>
  The last 8 bytes of the address space: \<open>buffer + 8\<close> wraps to 0, the aligned start
  \<open>0xFFFFFFF8\<close> is not below it, and the blank instance comes back stamped. With 7 bytes
  the parameters are rejected and the instance comes back blank.
\<close>

theorem StackAlloc_Init_failure_state_witness:
  "fst (StackAlloc_Init mem_ff (Some sa_blank) 0xFFFFFFF8 8) = STACK_ALLOC_ERROR_OUT_OF_MEMORY
   \<and> fst (snd (StackAlloc_Init mem_ff (Some sa_blank) 0xFFFFFFF8 8))
       = Some \<lparr>buffer_start = 0xFFFFFFF8, buffer_end = 0, current = 0xFFFFFFF8, capacity = 8\<rparr>
   \<and> Some sa_blank \<noteq> fst (snd (StackAlloc_Init mem_ff (Some sa_blank) 0xFFFFFFF8 8))
   \<and> fst (StackAlloc_Init mem_ff (Some sa_blank) 0xFFFFFFF8 7) = STACK_ALLOC_ERROR_INVALID_PARAM
   \<and> fst (snd (StackAlloc_Init mem_ff (Some sa_blank) 0xFFFFFFF8 7)) = Some sa_blank"
proof -
  have oom: "fst (StackAlloc_Init mem_ff (Some sa_blank) 0xFFFFFFF8 8) = STACK_ALLOC_ERROR_OUT_OF_MEMORY"
    by (simp add: Init_Some AlignUp_def STACK_ALLOC_ALIGNMENT_def NULL_PTR_def)
  have inv: "fst (StackAlloc_Init mem_ff (Some sa_blank) 0xFFFFFFF8 7) = STACK_ALLOC_ERROR_INVALID_PARAM"
    by (simp add: Init_Some STACK_ALLOC_ALIGNMENT_def NULL_PTR_def)
  have al: "AlignUp 0xFFFFFFF8 STACK_ALLOC_ALIGNMENT = 0xFFFFFFF8"
    by (simp add: AlignUp_def STACK_ALLOC_ALIGNMENT_def)
  show ?thesis
    using StackAlloc_Init_failure_state [of mem_ff "Some sa_blank" "0xFFFFFFF8" 8]
      StackAlloc_Init_failure_state [of mem_ff "Some sa_blank" "0xFFFFFFF8" 7] oom inv al
    by (simp add: sa_blank_def)
qed

section \<open>GetMarker\<close>

text \<open>
  C6. \<open>StackAlloc_GetMarker\<close> returns \<open>current\<close> as the marker, and \<open>NULL_PTR\<close> when the
  instance handle is absent; in both cases the instance is as it was.
\<close>

theorem StackAlloc_GetMarker_spec:
  "StackAlloc_GetMarker None = (NULL_PTR, None)
   \<and> StackAlloc_GetMarker (Some s) = (current s, Some s)"
  by (simp add: StackAlloc_GetMarker_def)

section \<open>Accepted markers\<close>

text \<open>
  C10. A marker that \<open>StackAlloc_FreeToMarker\<close> accepts lies in
  \<open>[alignedStart, current)\<close>, although the range test compares with \<open>buffer_start\<close>:
  no multiple of the alignment lies in \<open>[buffer_start, alignedStart)\<close>. So after a
  successful call \<open>alignedStart <= current\<close> holds.
\<close>

theorem accepted_marker_above_aligned_start:
  "(StackAlloc_FreeToMarker (Some s) marker = (STACK_ALLOC_OK, Some s') \<longrightarrow>
      GetAlignedStart s \<le> marker \<and> marker < current s \<and> GetAlignedStart s' \<le> current s')
   \<and> (buffer_start s \<le> a \<and> a < GetAlignedStart s \<longrightarrow> a mod STACK_ALLOC_ALIGNMENT \<noteq> 0)"
proof (intro conjI impI)
  assume ok: "StackAlloc_FreeToMarker (Some s) marker = (STACK_ALLOC_OK, Some s')"
  show "GetAlignedStart s \<le> marker" by (rule FreeToMarker_OK(5)[OF ok])
  show "marker < current s" by (rule FreeToMarker_OK(3)[OF ok])
  show "GetAlignedStart s' \<le> current s'"
    using FreeToMarker_OK(1)[OF ok] FreeToMarker_OK(5)[OF ok] by (simp add: GetAlignedStart_def)
next
  assume h: "buffer_start s \<le> a \<and> a < GetAlignedStart s"
  show "a mod STACK_ALLOC_ALIGNMENT \<noteq> 0"
  proof
    assume "a mod STACK_ALLOC_ALIGNMENT = 0"
    then have "AlignUp (buffer_start s) 8 \<le> a"
      using h by (simp add: STACK_ALLOC_ALIGNMENT_def AlignUp_least)
    with h show False by (auto simp: GetAlignedStart_def STACK_ALLOC_ALIGNMENT_def)
  qed
qed

theorem accepted_marker_above_aligned_start_witness:
  "StackAlloc_FreeToMarker
      (Some \<lparr>buffer_start = 0x1001, buffer_end = 0x1401, current = 0x1020, capacity = 1024\<rparr>) 0x1010
     = (STACK_ALLOC_OK,
        Some \<lparr>buffer_start = 0x1001, buffer_end = 0x1401, current = 0x1010, capacity = 1024\<rparr>)
   \<and> GetAlignedStart \<lparr>buffer_start = 0x1001, buffer_end = 0x1401, current = 0x1020, capacity = 1024\<rparr>
       = 0x1008
   \<and> (0x1008 :: addr) \<le> 0x1010 \<and> (0x1010 :: addr) < 0x1020
   \<and> (0x1001 :: addr) \<le> 0x1003 \<and> (0x1003 :: addr) < 0x1008
   \<and> (0x1003 :: addr) mod STACK_ALLOC_ALIGNMENT \<noteq> 0"
proof -
  let ?s = "\<lparr>buffer_start = 0x1001, buffer_end = 0x1401, current = 0x1020, capacity = 1024 :: uint32\<rparr>"
  let ?s' = "\<lparr>buffer_start = 0x1001, buffer_end = 0x1401, current = 0x1010, capacity = 1024 :: uint32\<rparr>"
  have ok: "StackAlloc_FreeToMarker (Some ?s) 0x1010 = (STACK_ALLOC_OK, Some ?s')"
    by (simp add: FreeToMarker_Some NULL_PTR_def STACK_ALLOC_ALIGNMENT_def)
  have al: "GetAlignedStart ?s = 0x1008"
    by (simp add: GetAlignedStart_def AlignUp_def STACK_ALLOC_ALIGNMENT_def)
  show ?thesis
    using accepted_marker_above_aligned_start [of ?s "0x1010" ?s' "0x1003"] ok al
    by simp
qed

section \<open>AllocateZeroed\<close>

lemma mem_set_inside: "i < n \<Longrightarrow> mem_set mem ptr val n (ptr + i) = val"
  by (simp add: mem_set_def)

lemma Calloc_rejected:
  "num = 0 \<or> sz = 0 \<or> SIZE_MAX div sz < num \<Longrightarrow>
     StackAlloc_Calloc mem sa num sz = (NULL_PTR, sa, mem)"
  by (auto simp: StackAlloc_Calloc_def)

lemma Calloc_delegates:
  assumes "num \<noteq> 0" and "sz \<noteq> 0" and "num \<le> SIZE_MAX div sz"
  shows "StackAlloc_Calloc mem sa num sz =
     (fst (StackAlloc_Alloc sa (num * sz)), snd (StackAlloc_Alloc sa (num * sz)),
      if fst (StackAlloc_Alloc sa (num * sz)) \<noteq> NULL_PTR
      then mem_set mem (fst (StackAlloc_Alloc sa (num * sz))) 0 (num * sz) else mem)"
  using assms by (simp add: StackAlloc_Calloc_def Let_def not_less[symmetric] split: prod.splits)

text \<open>
  C7. \<open>StackAlloc_Calloc\<close> returns \<open>NULL_PTR\<close>, with instance and memory untouched, when
  \<open>num = 0\<close>, \<open>size = 0\<close> or \<open>num > SIZE_MAX / size\<close>; the division test holds exactly
  when the product reaches \<open>2^32\<close>, so past it \<open>num * size\<close> is the true product.
  Otherwise the address and the instance are those of \<open>StackAlloc_Alloc\<close> on
  \<open>num * size\<close>; when that returns \<open>NULL_PTR\<close> the memory is untouched, and when it
  succeeds every byte \<open>ptr + i\<close>, \<open>i < num * size\<close>, reads 0.
\<close>

theorem StackAlloc_Calloc_spec:
  "(num = 0 \<or> sz = 0 \<or> SIZE_MAX div sz < num \<longrightarrow>
      StackAlloc_Calloc mem sa num sz = (NULL_PTR, sa, mem))
   \<and> (num \<noteq> 0 \<and> sz \<noteq> 0 \<and> num \<le> SIZE_MAX div sz \<longrightarrow>
        unat (num * sz) = unat num * unat sz
      \<and> fst (StackAlloc_Calloc mem sa num sz) = fst (StackAlloc_Alloc sa (num * sz))
      \<and> fst (snd (StackAlloc_Calloc mem sa num sz)) = snd (StackAlloc_Alloc sa (num * sz))
      \<and> (fst (StackAlloc_Alloc sa (num * sz)) = NULL_PTR \<longrightarrow>
           snd (snd (StackAlloc_Calloc mem sa num sz)) = mem)
      \<and> (fst (StackAlloc_Alloc sa (num * sz)) \<noteq> NULL_PTR \<longrightarrow>
           (\<forall>i. i < num * sz \<longrightarrow>
              snd (snd (StackAlloc_Calloc mem sa num sz))
                (fst (StackAlloc_Calloc mem sa num sz) + i) = 0)))
   \<and> (sz \<noteq> 0 \<longrightarrow> (SIZE_MAX div sz < num) = (2 ^ 32 \<le> unat num * unat sz))"
proof (intro conjI impI allI)
  assume "num = 0 \<or> sz = 0 \<or> SIZE_MAX div sz < num"
  then show "StackAlloc_Calloc mem sa num sz = (NULL_PTR, sa, mem)" by (rule Calloc_rejected)
next
  assume "sz \<noteq> 0"
  then show "(SIZE_MAX div sz < num) = (2 ^ 32 \<le> unat num * unat sz)"
    by (simp add: calloc_guard)
next
  assume h: "num \<noteq> 0 \<and> sz \<noteq> 0 \<and> num \<le> SIZE_MAX div sz"
  then have c: "StackAlloc_Calloc mem sa num sz =
     (fst (StackAlloc_Alloc sa (num * sz)), snd (StackAlloc_Alloc sa (num * sz)),
      if fst (StackAlloc_Alloc sa (num * sz)) \<noteq> NULL_PTR
      then mem_set mem (fst (StackAlloc_Alloc sa (num * sz))) 0 (num * sz) else mem)"
    by (simp add: Calloc_delegates)
  from h show "unat (num * sz) = unat num * unat sz"
    by (simp add: calloc_total not_less[symmetric])
  show "fst (StackAlloc_Calloc mem sa num sz) = fst (StackAlloc_Alloc sa (num * sz))"
    by (simp add: c)
  show "fst (snd (StackAlloc_Calloc mem sa num sz)) = snd (StackAlloc_Alloc sa (num * sz))"
    by (simp add: c)
  {
    assume "fst (StackAlloc_Alloc sa (num * sz)) = NULL_PTR"
    then show "snd (snd (StackAlloc_Calloc mem sa num sz)) = mem" by (simp add: c)
  }
  {
    fix i
    assume "fst (StackAlloc_Alloc sa (num * sz)) \<noteq> NULL_PTR" and "i < num * sz"
    then show "snd (snd (StackAlloc_Calloc mem sa num sz))
                (fst (StackAlloc_Calloc mem sa num sz) + i) = 0"
      by (simp add: c mem_set_inside)
  }
qed

text \<open>
  On the test buffer, over a memory of \<open>0xFF\<close> bytes: a zero count, a product of
  \<open>2^32\<close>, the test suite's 5 elements of 4 bytes, and 2000 bytes that do not fit.
\<close>

lemma Alloc_test_20: "StackAlloc_Alloc (Some sa_test) 20 = (0x1000, Some (sa_test\<lparr>current := 0x1014\<rparr>))"
  by (simp add: StackAlloc_Alloc_def Let_def AlignUp_def STACK_ALLOC_ALIGNMENT_def sa_test_def NULL_PTR_def)

text \<open>
  On the test buffer, over a memory of \<open>0xFF\<close> bytes: a zero count, a product of
  \<open>2^32\<close>, the test suite's 5 elements of 4 bytes, and 2000 bytes that do not fit.
\<close>

lemma Alloc_test_2000: "StackAlloc_Alloc (Some sa_test) 2000 = (NULL_PTR, Some sa_test)"
  by (simp add: StackAlloc_Alloc_def Let_def AlignUp_def STACK_ALLOC_ALIGNMENT_def sa_test_def NULL_PTR_def)

theorem StackAlloc_Calloc_spec_witness:
  "StackAlloc_Calloc mem_ff (Some sa_test) 0 4 = (NULL_PTR, Some sa_test, mem_ff)
   \<and> StackAlloc_Calloc mem_ff (Some sa_test) 0x10000 0x10000 = (NULL_PTR, Some sa_test, mem_ff)
   \<and> fst (StackAlloc_Calloc mem_ff (Some sa_test) 5 4) = 0x1000
   \<and> fst (snd (StackAlloc_Calloc mem_ff (Some sa_test) 5 4)) = Some (sa_test\<lparr>current := 0x1014\<rparr>)
   \<and> snd (snd (StackAlloc_Calloc mem_ff (Some sa_test) 5 4)) (0x1000 + 0x13) = 0
   \<and> mem_ff (0x1000 + 0x13) = 0xFF
   \<and> fst (StackAlloc_Calloc mem_ff (Some sa_test) 2000 1) = NULL_PTR
   \<and> snd (snd (StackAlloc_Calloc mem_ff (Some sa_test) 2000 1)) = mem_ff"
proof -
  have g1: "SIZE_MAX div 0x10000 < (0x10000 :: uint32)" by (simp add: SIZE_MAX_def)
  have g2: "(5 :: uint32) \<le> SIZE_MAX div 4" by (simp add: SIZE_MAX_def)
  have g3: "(2000 :: uint32) \<le> SIZE_MAX div 1" by (simp add: SIZE_MAX_def)
  have n: "(0x1000 :: addr) \<noteq> NULL_PTR" by (simp add: NULL_PTR_def)
  have f: "fst (StackAlloc_Calloc mem_ff (Some sa_test) 5 4) = 0x1000"
    using StackAlloc_Calloc_spec [of 5 4 mem_ff "Some sa_test"] g2 Alloc_test_20 by simp
  have a: "i < 20 \<Longrightarrow>
      snd (snd (StackAlloc_Calloc mem_ff (Some sa_test) 5 4)) (0x1000 + i) = 0" for i :: uint32
    using StackAlloc_Calloc_spec [of 5 4 mem_ff "Some sa_test"] g2 n Alloc_test_20 by auto
  have z: "snd (snd (StackAlloc_Calloc mem_ff (Some sa_test) 5 4)) (0x1000 + 0x13) = 0"
    by (rule a) simp
  have ff: "mem_ff (0x1000 + 0x13) = 0xFF" by (simp add: mem_ff_def)
  show ?thesis
    using StackAlloc_Calloc_spec [of 0 4 mem_ff "Some sa_test"]
      StackAlloc_Calloc_spec [of "0x10000" "0x10000" mem_ff "Some sa_test"]
      StackAlloc_Calloc_spec [of 5 4 mem_ff "Some sa_test"]
      StackAlloc_Calloc_spec [of 2000 1 mem_ff "Some sa_test"]
      g1 g2 g3 n z ff Alloc_test_20 Alloc_test_2000
    by simp
qed

section \<open>The invariant\<close>

lemma Alloc_success:
  assumes "StackAlloc_Alloc (Some s) sz = (p, sa')" and "p \<noteq> NULL_PTR"
  shows "sz \<noteq> 0" and "p = AlignUp (current s) 8" and "sa' = Some (s\<lparr>current := p + sz\<rparr>)"
    and "unat p + unat sz < 4294967296" and "p + sz \<le> buffer_end s"
    and "current s \<le> p" and "p mod 8 = 0"
proof -
  from assms have a: "sz \<noteq> 0 \<and> p = AlignUp (current s) 8
      \<and> sa' = Some (s\<lparr>current := p + sz\<rparr>) \<and> \<not> p + sz < p \<and> p + sz \<le> buffer_end s"
    by (auto simp: StackAlloc_Alloc_def Let_def STACK_ALLOC_ALIGNMENT_def not_less
        split: if_splits)
  then show "sz \<noteq> 0" and p: "p = AlignUp (current s) 8"
    and "sa' = Some (s\<lparr>current := p + sz\<rparr>)" and "p + sz \<le> buffer_end s" by auto
  from a have "\<not> p + sz < p" by blast
  then have "\<not> 4294967296 \<le> unat p + unat sz" by (simp add: wrap_iff)
  then show "unat p + unat sz < 4294967296" by simp
  from p show "p mod 8 = 0" by (simp add: AlignUp_aligned)
  from assms(2) p have "AlignUp (current s) 8 \<noteq> 0" by (simp add: NULL_PTR_def)
  with AlignUp_cases[of "current s"] have "unat (current s) \<le> unat (AlignUp (current s) 8)"
    by simp
  with p show "current s \<le> p" by (simp add: word_le_nat_alt)
qed

lemma Alloc_preserves_invariant:
  assumes inv: "sa_invariant s"
    and al: "StackAlloc_Alloc (Some s) sz = (p, Some s')" and nn: "p \<noteq> NULL_PTR"
  shows "sa_invariant s'" and "current s' = p + sz"
    and "(current s' mod STACK_ALLOC_ALIGNMENT = 0) = (sz mod STACK_ALLOC_ALIGNMENT = 0)"
proof -
  note f = Alloc_success[OF al nn]
  from f(3) have s': "s' = s\<lparr>current := p + sz\<rparr>" by simp
  then show c: "current s' = p + sz" by simp
  have nw: "unat (p + sz) = unat p + unat sz" using f(4) by (simp add: unat_word_ariths)
  then have "p \<le> p + sz" by (simp add: word_le_nat_alt)
  with f(6) have "current s \<le> p + sz" by simp
  with inv f(5) show "sa_invariant s'"
    by (auto simp: s' sa_invariant_def GetAlignedStart_def)
  have "unat p mod 8 = 0" using f(7) by (simp add: mod8_iff)
  then have "((unat p + unat sz) mod 8 = 0) = (unat sz mod 8 = 0)" by presburger
  then show "(current s' mod STACK_ALLOC_ALIGNMENT = 0) = (sz mod STACK_ALLOC_ALIGNMENT = 0)"
    by (simp add: c STACK_ALLOC_ALIGNMENT_def mod8_iff nw)
qed

lemma Init_establishes_invariant:
  assumes fit: "unat buffer + unat n \<le> 4294967296"
    and ok: "StackAlloc_Init mem sa buffer n = (STACK_ALLOC_OK, Some s', mem')"
  shows "sa_invariant s'" and "current s' mod STACK_ALLOC_ALIGNMENT = 0"
proof -
  from ok error_codes_distinct have a: "8 \<le> n \<and> AlignUp buffer 8 < buffer + n
      \<and> s' = \<lparr>buffer_start = buffer, buffer_end = buffer + n,
               current = AlignUp buffer 8, capacity = n\<rparr>"
    by (cases sa)
      (auto simp: Init_None Init_Some STACK_ALLOC_ALIGNMENT_def not_less not_le split: if_splits)
  then have n8: "8 \<le> unat n" by (simp add: word_le_nat_alt)
  from AlignUp_cases[of buffer] n8 fit have "unat buffer \<le> unat (AlignUp buffer 8)" by auto
  then have "buffer \<le> AlignUp buffer 8" by (simp add: word_le_nat_alt)
  with a show "sa_invariant s'"
    by (auto simp: sa_invariant_def GetAlignedStart_def STACK_ALLOC_ALIGNMENT_def)
  from a show "current s' mod STACK_ALLOC_ALIGNMENT = 0"
    by (simp add: STACK_ALLOC_ALIGNMENT_def AlignUp_aligned)
qed

lemma FreeToMarker_preserves_invariant:
  assumes inv: "sa_invariant s"
    and ok: "StackAlloc_FreeToMarker (Some s) marker = (STACK_ALLOC_OK, Some s')"
  shows "sa_invariant s'" and "current s' mod STACK_ALLOC_ALIGNMENT = 0"
proof -
  note f = FreeToMarker_OK[OF ok]
  from f(3) inv have "marker \<le> buffer_end s" by (auto simp: sa_invariant_def)
  with inv f(5) show "sa_invariant s'" by (auto simp: f(1) sa_invariant_def GetAlignedStart_def)
  from f(4) show "current s' mod STACK_ALLOC_ALIGNMENT = 0"
    by (simp add: f(1) STACK_ALLOC_ALIGNMENT_def)
qed

lemma Reset_preserves_invariant:
  assumes inv: "sa_invariant s" and r: "StackAlloc_Reset (Some s) = Some s'"
  shows "sa_invariant s'" and "current s' mod STACK_ALLOC_ALIGNMENT = 0"
proof -
  from r have s': "s' = s\<lparr>current := GetAlignedStart s\<rparr>" by (simp add: StackAlloc_Reset_def)
  from inv show "sa_invariant s'" by (auto simp: s' sa_invariant_def GetAlignedStart_def)
  show "current s' mod STACK_ALLOC_ALIGNMENT = 0"
    by (simp add: s' GetAlignedStart_def STACK_ALLOC_ALIGNMENT_def AlignUp_aligned)
qed

lemma Calloc_success:
  assumes "StackAlloc_Calloc mem sa num sz = (p, sa', mem')" and "p \<noteq> NULL_PTR"
  shows "StackAlloc_Alloc sa (num * sz) = (p, sa')"
  using assms by (auto simp: StackAlloc_Calloc_def Let_def split: if_splits prod.splits)


lemma Alloc_test_10:
  "StackAlloc_Alloc (Some sa_test) 10 = (0x1000, Some (sa_test\<lparr>current := 0x100A\<rparr>))"
  by (simp add: StackAlloc_Alloc_def Let_def AlignUp_def STACK_ALLOC_ALIGNMENT_def sa_test_def
      NULL_PTR_def)

text \<open>
  C4, as stated, fails at the first allocation of the test suite, 10 bytes on the freshly
  initialised test buffer:
  it succeeds and leaves \<open>current = 0x100A\<close>, which is not a multiple of the alignment.
  The cursor after an allocation is the aligned pointer plus the size as requested; the
  size is not rounded up, the next allocation aligns the cursor instead.
\<close>

theorem cursor_unaligned_after_Alloc:
  "StackAlloc_Init mem_ff (Some sa_blank) 0x1000 1024 = (STACK_ALLOC_OK, Some sa_test, mem_ff)
   \<and> StackAlloc_Alloc (Some sa_test) 10 = (0x1000, Some (sa_test\<lparr>current := 0x100A\<rparr>))
   \<and> (0x1000 :: addr) \<noteq> NULL_PTR
   \<and> current (sa_test\<lparr>current := 0x100A\<rparr>) mod STACK_ALLOC_ALIGNMENT \<noteq> 0"
  by (simp add: Init_test_buffer Alloc_test_10 NULL_PTR_def STACK_ALLOC_ALIGNMENT_def)

text \<open>
  C4, as amended. A successful public operation on an instance on which
  \<open>bufferStart <= alignedStart <= current <= bufferEnd\<close> holds leaves an instance on which
  it holds: \<open>StackAlloc_Alloc\<close> and \<open>StackAlloc_Calloc\<close> returning an address other than
  \<open>NULL_PTR\<close>, \<open>StackAlloc_FreeToMarker\<close> returning \<open>OK\<close>, \<open>StackAlloc_Reset\<close>; and
  \<open>StackAlloc_Init\<close> returning \<open>OK\<close> on a buffer that lies within the address space
  establishes it. \<open>current\<close> is a multiple of the alignment after \<open>StackAlloc_Init\<close>,
  \<open>StackAlloc_FreeToMarker\<close> and \<open>StackAlloc_Reset\<close>; after an allocation it is one
  exactly when the size allocated is. The accessors, \<open>StackAlloc_GetMarker\<close> and
  \<open>StackAlloc_Validate\<close> take the instance as \<open>const\<close> and return none.
\<close>

theorem invariant_after_success:
  "(unat buffer + unat n \<le> 2 ^ 32
      \<and> StackAlloc_Init mem sa buffer n = (STACK_ALLOC_OK, Some s', mem') \<longrightarrow>
        sa_invariant s' \<and> current s' mod STACK_ALLOC_ALIGNMENT = 0)
   \<and> (sa_invariant s \<and> StackAlloc_Alloc (Some s) sz = (p, Some s') \<and> p \<noteq> NULL_PTR \<longrightarrow>
        sa_invariant s'
        \<and> (current s' mod STACK_ALLOC_ALIGNMENT = 0) = (sz mod STACK_ALLOC_ALIGNMENT = 0))
   \<and> (sa_invariant s \<and> StackAlloc_Calloc mem (Some s) num sz = (p, Some s', mem')
      \<and> p \<noteq> NULL_PTR \<longrightarrow>
        sa_invariant s'
        \<and> (current s' mod STACK_ALLOC_ALIGNMENT = 0) = (num * sz mod STACK_ALLOC_ALIGNMENT = 0))
   \<and> (sa_invariant s
      \<and> StackAlloc_FreeToMarker (Some s) marker = (STACK_ALLOC_OK, Some s') \<longrightarrow>
        sa_invariant s' \<and> current s' mod STACK_ALLOC_ALIGNMENT = 0)
   \<and> (sa_invariant s \<and> StackAlloc_Reset (Some s) = Some s' \<longrightarrow>
        sa_invariant s' \<and> current s' mod STACK_ALLOC_ALIGNMENT = 0)"
proof (intro conjI impI)
  assume "unat buffer + unat n \<le> 2 ^ 32
    \<and> StackAlloc_Init mem sa buffer n = (STACK_ALLOC_OK, Some s', mem')"
  then have fit: "unat buffer + unat n \<le> 4294967296"
    and ok: "StackAlloc_Init mem sa buffer n = (STACK_ALLOC_OK, Some s', mem')" by simp_all
  show "sa_invariant s'" by (rule Init_establishes_invariant(1)[OF fit ok])
  show "current s' mod STACK_ALLOC_ALIGNMENT = 0" by (rule Init_establishes_invariant(2)[OF fit ok])
next
  assume "sa_invariant s \<and> StackAlloc_Alloc (Some s) sz = (p, Some s') \<and> p \<noteq> NULL_PTR"
  then have inv: "sa_invariant s" and al: "StackAlloc_Alloc (Some s) sz = (p, Some s')"
    and nn: "p \<noteq> NULL_PTR" by simp_all
  show "sa_invariant s'" by (rule Alloc_preserves_invariant(1)[OF inv al nn])
  show "(current s' mod STACK_ALLOC_ALIGNMENT = 0) = (sz mod STACK_ALLOC_ALIGNMENT = 0)"
    by (rule Alloc_preserves_invariant(3)[OF inv al nn])
next
  assume "sa_invariant s \<and> StackAlloc_Calloc mem (Some s) num sz = (p, Some s', mem')
    \<and> p \<noteq> NULL_PTR"
  then have inv: "sa_invariant s"
    and ca: "StackAlloc_Calloc mem (Some s) num sz = (p, Some s', mem')"
    and nn: "p \<noteq> NULL_PTR" by simp_all
  have al: "StackAlloc_Alloc (Some s) (num * sz) = (p, Some s')"
    by (rule Calloc_success[OF ca nn])
  show "sa_invariant s'" by (rule Alloc_preserves_invariant(1)[OF inv al nn])
  show "(current s' mod STACK_ALLOC_ALIGNMENT = 0) = (num * sz mod STACK_ALLOC_ALIGNMENT = 0)"
    by (rule Alloc_preserves_invariant(3)[OF inv al nn])
next
  assume "sa_invariant s
    \<and> StackAlloc_FreeToMarker (Some s) marker = (STACK_ALLOC_OK, Some s')"
  then have inv: "sa_invariant s"
    and ok: "StackAlloc_FreeToMarker (Some s) marker = (STACK_ALLOC_OK, Some s')" by simp_all
  show "sa_invariant s'" by (rule FreeToMarker_preserves_invariant(1)[OF inv ok])
  show "current s' mod STACK_ALLOC_ALIGNMENT = 0"
    by (rule FreeToMarker_preserves_invariant(2)[OF inv ok])
next
  assume "sa_invariant s \<and> StackAlloc_Reset (Some s) = Some s'"
  then have inv: "sa_invariant s" and r: "StackAlloc_Reset (Some s) = Some s'" by simp_all
  show "sa_invariant s'" by (rule Reset_preserves_invariant(1)[OF inv r])
  show "current s' mod STACK_ALLOC_ALIGNMENT = 0" by (rule Reset_preserves_invariant(2)[OF inv r])
qed


text \<open>
  On the test buffer: initialisation, an allocation of 10 bytes, a zeroed allocation of
  5 elements of 4 bytes, a rewind to the marker \<open>0x1008\<close>, and a reset.
\<close>

lemma Calloc_test_5_4:
  "StackAlloc_Calloc mem_ff (Some sa_test) 5 4
     = (0x1000, Some (sa_test\<lparr>current := 0x1014\<rparr>), mem_set mem_ff 0x1000 0 20)"
  by (simp add: StackAlloc_Calloc_def SIZE_MAX_def Alloc_test_20 NULL_PTR_def)

lemma FreeToMarker_test:
  "StackAlloc_FreeToMarker (Some (sa_test\<lparr>current := 0x1014\<rparr>)) 0x1008
     = (STACK_ALLOC_OK, Some (sa_test\<lparr>current := 0x1008\<rparr>))"
  by (simp add: FreeToMarker_Some sa_test_def NULL_PTR_def STACK_ALLOC_ALIGNMENT_def)

lemma Reset_test:
  "StackAlloc_Reset (Some (sa_test\<lparr>current := 0x100A\<rparr>)) = Some sa_test"
  by (simp add: StackAlloc_Reset_def GetAlignedStart_def AlignUp_def STACK_ALLOC_ALIGNMENT_def
      sa_test_def)

theorem invariant_after_success_witness:
  "StackAlloc_Init mem_ff (Some sa_blank) 0x1000 1024 = (STACK_ALLOC_OK, Some sa_test, mem_ff)
   \<and> sa_invariant sa_test \<and> current sa_test mod STACK_ALLOC_ALIGNMENT = 0
   \<and> StackAlloc_Alloc (Some sa_test) 10 = (0x1000, Some (sa_test\<lparr>current := 0x100A\<rparr>))
   \<and> sa_invariant (sa_test\<lparr>current := 0x100A\<rparr>)
   \<and> (current (sa_test\<lparr>current := 0x100A\<rparr>) mod STACK_ALLOC_ALIGNMENT = 0)
       = ((10 :: uint32) mod STACK_ALLOC_ALIGNMENT = 0)
   \<and> fst (StackAlloc_Calloc mem_ff (Some sa_test) 5 4) = 0x1000
   \<and> sa_invariant (sa_test\<lparr>current := 0x1014\<rparr>)
   \<and> StackAlloc_FreeToMarker (Some (sa_test\<lparr>current := 0x1014\<rparr>)) 0x1008
       = (STACK_ALLOC_OK, Some (sa_test\<lparr>current := 0x1008\<rparr>))
   \<and> sa_invariant (sa_test\<lparr>current := 0x1008\<rparr>)
   \<and> current (sa_test\<lparr>current := 0x1008\<rparr>) mod STACK_ALLOC_ALIGNMENT = 0
   \<and> StackAlloc_Reset (Some (sa_test\<lparr>current := 0x100A\<rparr>)) = Some sa_test"
proof -
  have fit: "unat (0x1000 :: addr) + unat (1024 :: uint32) \<le> 2 ^ 32" by simp
  have nn: "(0x1000 :: addr) \<noteq> NULL_PTR" by (simp add: NULL_PTR_def)
  have w1: "sa_invariant sa_test \<and> current sa_test mod STACK_ALLOC_ALIGNMENT = 0"
    using invariant_after_success [where buffer = "0x1000" and n = 1024 and mem = mem_ff
        and sa = "Some sa_blank" and s' = sa_test and mem' = mem_ff]
      fit Init_test_buffer [of mem_ff sa_blank]
    by simp
  have w2: "sa_invariant (sa_test\<lparr>current := 0x100A\<rparr>)
      \<and> (current (sa_test\<lparr>current := 0x100A\<rparr>) mod STACK_ALLOC_ALIGNMENT = 0)
          = ((10 :: uint32) mod STACK_ALLOC_ALIGNMENT = 0)"
    using invariant_after_success [where s = sa_test and sz = 10 and p = "0x1000"
        and s' = "sa_test\<lparr>current := 0x100A\<rparr>"]
      w1 nn Alloc_test_10
    by simp
  have w3: "sa_invariant (sa_test\<lparr>current := 0x1014\<rparr>)"
    using invariant_after_success [where s = sa_test and num = 5 and sz = 4 and p = "0x1000"
        and mem = mem_ff and s' = "sa_test\<lparr>current := 0x1014\<rparr>"
        and mem' = "mem_set mem_ff 0x1000 0 20"]
      w1 nn Calloc_test_5_4
    by simp
  have w4: "sa_invariant (sa_test\<lparr>current := 0x1008\<rparr>)
      \<and> current (sa_test\<lparr>current := 0x1008\<rparr>) mod STACK_ALLOC_ALIGNMENT = 0"
    using invariant_after_success [where s = "sa_test\<lparr>current := 0x1014\<rparr>"
        and marker = "0x1008" and s' = "sa_test\<lparr>current := 0x1008\<rparr>"]
      w3 FreeToMarker_test
    by simp
  have w5: "sa_invariant sa_test"
    using invariant_after_success [where s = "sa_test\<lparr>current := 0x100A\<rparr>" and s' = sa_test]
      w2 Reset_test
    by simp
  show ?thesis
    using w1 w2 w3 w4 w5 Init_test_buffer [of mem_ff sa_blank] Alloc_test_10 Calloc_test_5_4
      FreeToMarker_test Reset_test
    by simp
qed

section \<open>Returned addresses\<close>

text \<open>
  On an instance on which the invariant holds, an address other than \<open>NULL_PTR\<close> that
  \<open>StackAlloc_Alloc\<close> returns is a multiple of the alignment and lies in
  \<open>[buffer_start, buffer_end)\<close>.
\<close>

lemma Alloc_result_in_buffer:
  assumes inv: "sa_invariant s"
    and al: "StackAlloc_Alloc (Some s) sz = (p, sa')" and nn: "p \<noteq> NULL_PTR"
  shows "p mod STACK_ALLOC_ALIGNMENT = 0" and "buffer_start s \<le> p" and "p < buffer_end s"
proof -
  note f = Alloc_success[OF al nn]
  from f(7) show "p mod STACK_ALLOC_ALIGNMENT = 0" by (simp add: STACK_ALLOC_ALIGNMENT_def)
  from inv f(6) show "buffer_start s \<le> p" by (auto simp: sa_invariant_def)
  have "0 < unat sz" using f(1) by (simp add: unat_gt_0)
  moreover have "unat (p + sz) = unat p + unat sz" using f(4) by (simp add: unat_word_ariths)
  ultimately have "p < p + sz" by (simp add: word_less_nat_alt)
  with f(5) show "p < buffer_end s" by simp
qed

text \<open>
  C5. The claim: every address returned by a successful \<open>StackAlloc_Alloc\<close> or
  \<open>StackAlloc_Calloc\<close> on an initialised instance is a multiple of the alignment and lies
  in \<open>[buffer_start, buffer_end)\<close>. The alignment holds throughout; the range fails where
  \<open>AlignUp\<close> itself wraps, which \<open>StackAlloc_Alloc\<close> does not test (it tests the wrap of
  \<open>aligned_ptr + size\<close> only). On the 15-byte buffer at \<open>0xFFFFFFF0\<close>: initialisation
  succeeds; 15 bytes are allocated and the buffer is full, \<open>current = buffer_end =
  0xFFFFFFFF\<close>; a request for 1 more byte aligns \<open>current\<close> up to 0, passes both tests,
  returns \<open>NULL_PTR\<close> and leaves \<open>current = 1\<close>; the next request for 8 bytes returns
  the address 8, below \<open>buffer_start\<close>, and so does a zeroed allocation of 2 elements of
  4 bytes.
\<close>

theorem Alloc_returns_address_outside_buffer:
  "StackAlloc_Init mem_ff (Some sa_blank) 0xFFFFFFF0 15 = (STACK_ALLOC_OK, Some sa_top, mem_ff)
   \<and> StackAlloc_Alloc (Some sa_top) 15 = (0xFFFFFFF0, Some (sa_top\<lparr>current := 0xFFFFFFFF\<rparr>))
   \<and> StackAlloc_Alloc (Some (sa_top\<lparr>current := 0xFFFFFFFF\<rparr>)) 1
       = (NULL_PTR, Some (sa_top\<lparr>current := 1\<rparr>))
   \<and> StackAlloc_Alloc (Some (sa_top\<lparr>current := 1\<rparr>)) 8
       = (8, Some (sa_top\<lparr>current := 16\<rparr>))
   \<and> (8 :: addr) \<noteq> NULL_PTR
   \<and> (8 :: addr) < buffer_start sa_top
   \<and> fst (StackAlloc_Calloc mem_ff (Some (sa_top\<lparr>current := 1\<rparr>)) 2 4) = 8"
  by (simp add: Init_Some StackAlloc_Alloc_def StackAlloc_Calloc_def Let_def AlignUp_def
      STACK_ALLOC_ALIGNMENT_def SIZE_MAX_def NULL_PTR_def sa_top_def)

section \<open>Capacity conservation\<close>

text \<open>
  Where the invariant holds neither difference wraps, and the sum is the number of bytes
  between the aligned start and the end of the buffer.
\<close>

lemma used_plus_available_nat:
  assumes "sa_invariant s"
  shows "unat (StackAlloc_GetUsed (Some s)) + unat (StackAlloc_GetAvailable (Some s))
     = unat (buffer_end s) - unat (GetAlignedStart s)"
proof -
  from assms have a: "GetAlignedStart s \<le> current s" and b: "current s \<le> buffer_end s"
    by (simp_all add: sa_invariant_def)
  have "unat (current s - GetAlignedStart s) = unat (current s) - unat (GetAlignedStart s)"
    by (rule unat_sub[OF a])
  moreover have "unat (buffer_end s - current s) = unat (buffer_end s) - unat (current s)"
    by (rule unat_sub[OF b])
  moreover have "unat (GetAlignedStart s) \<le> unat (current s)"
    using a by (simp add: word_le_nat_alt)
  moreover have "unat (current s) \<le> unat (buffer_end s)"
    using b by (simp add: word_le_nat_alt)
  ultimately show ?thesis
    by (simp add: StackAlloc_GetUsed_def StackAlloc_GetAvailable_def)
qed

text \<open>
  C8. For every instance, whatever operation produced its fields,
  \<open>GetUsed + GetAvailable\<close> equals \<open>bufferEnd - alignedStart\<close>: the cursor cancels
  in the sum of the two differences, in the 32-bit arithmetic both accessors return.
\<close>

theorem used_plus_available:
  "StackAlloc_GetUsed (Some s) + StackAlloc_GetAvailable (Some s)
     = buffer_end s - GetAlignedStart s"
  by (simp add: StackAlloc_GetUsed_def StackAlloc_GetAvailable_def)

end
